theory Spec2Isabelle
  imports Main
begin

section \<open>The typed JSON-RPC client of \<^verbatim>\<open>client/__init__.py\<close>\<close>

text \<open>
  The module defines an abstract class \<^verbatim>\<open>Client\<close> with one abstract method
  \<^verbatim>\<open>call(method_name, params)\<close> and 111 concrete methods built on it, and the
  class \<^verbatim>\<open>HttpClient\<close> that implements \<^verbatim>\<open>call\<close> over HTTP with the
  \<^verbatim>\<open>requests\<close> library. Exceptions are values of the type \<open>error\<close>; a function
  that may raise returns \<open>error + 'a\<close>. The network is an explicit state that is passed
  through every call.
\<close>

subsection \<open>JSON values and exceptions\<close>

text \<open>
  What \<^verbatim>\<open>json.loads\<close> returns: \<^verbatim>\<open>None\<close>, a bool, an int, a float, a str, a list or
  a dict with string keys. A dict is an association list that is read with
  \<open>map_of\<close>. Floating point arithmetic is not modelled: a float is carried by its
  \<^verbatim>\<open>repr\<close>.
\<close>

datatype json =
    JNull
  | JBool bool
  | JInt int
  | JFloat string
  | JStr string
  | JArr "json list"
  | JObj "(string \<times> json) list"

datatype error =
    JSONDecodeError
  | TypeError
  | AttributeError
  | RequestException
  | HTTPError nat
  | RequestsJSONDecodeError
  | AssertionError
  | RuntimeError json
  | ValidationError
  | NameError

text \<open>
  The functions \<^verbatim>\<open>json.loads\<close> and \<^verbatim>\<open>json.dumps\<close> of the standard library are
  parameters of the model: \<open>json_loads\<close> gives \<open>None\<close> where \<^verbatim>\<open>json.loads\<close>
  raises, and \<^verbatim>\<open>json.dumps\<close> does not raise on a value that came out of a JSON
  parser. Every theorem below holds for every such pair of functions.
\<close>

record json_lib =
  json_loads :: "string \<Rightarrow> json option"
  json_dumps :: "json \<Rightarrow> string"

subsection \<open>The \<^verbatim>\<open>requests\<close> library\<close>

text \<open>
  \<^verbatim>\<open>requests.post(url, json=..., auth=...)\<close> is called with three arguments. The
  world answers a call with a connection failure or with a status code and a body,
  and keeps the list of the calls made.
\<close>

record post_args =
  post_url :: string
  post_json :: json
  post_auth :: "string option"

datatype http_outcome = ConnectionFailed | HttpResponse nat string

record world =
  respond :: "post_args \<Rightarrow> http_outcome"
  posted :: "post_args list"

record response =
  status_code :: nat
  content :: string

text \<open>
  The \<^verbatim>\<open>auth\<close> argument, as \<^verbatim>\<open>PreparedRequest.prepare_auth\<close> of requests treats it:
  \<^verbatim>\<open>
    if auth:
        if isinstance(auth, tuple) and len(auth) == 2:
            auth = HTTPBasicAuth(*auth)
        r = auth(self)
  \<close>
  \<^verbatim>\<open>None\<close> and the empty string are falsy and attach nothing. A non-empty string is
  no tuple, so it is called, which raises \<^verbatim>\<open>TypeError\<close> ('str' object is not
  callable) before anything is sent. Credentials that the library may take from the
  URL or from a netrc file when \<^verbatim>\<open>auth\<close> is \<^verbatim>\<open>None\<close> are outside the model.
\<close>

definition prepare_auth :: "string option \<Rightarrow> error + unit" where
  "prepare_auth auth =
     (case auth of
        None \<Rightarrow> Inr ()
      | Some s \<Rightarrow> if s = [] then Inr () else Inl TypeError)"

definition requests_post ::
  "string \<Rightarrow> json \<Rightarrow> string option \<Rightarrow> world \<Rightarrow> (error + response) \<times> world" where
  "requests_post u js auth w =
     (let args = \<lparr>post_url = u, post_json = js, post_auth = auth\<rparr>;
          w' = w\<lparr>posted := posted w @ [args]\<rparr>
      in case prepare_auth auth of
           Inl e \<Rightarrow> (Inl e, w')
         | Inr _ \<Rightarrow>
             (case respond w args of
                ConnectionFailed \<Rightarrow> (Inl RequestException, w')
              | HttpResponse st body \<Rightarrow> (Inr \<lparr>status_code = st, content = body\<rparr>, w')))"

text \<open>
  \<^verbatim>\<open>Response.raise_for_status\<close> of requests raises \<^verbatim>\<open>HTTPError\<close> when
  \<^verbatim>\<open>400 <= status_code < 500\<close> or \<^verbatim>\<open>500 <= status_code < 600\<close>, and returns
  otherwise.
\<close>

definition raise_for_status :: "response \<Rightarrow> error + unit" where
  "raise_for_status r =
     (if 400 \<le> status_code r \<and> status_code r < 500 then Inl (HTTPError (status_code r))
      else if 500 \<le> status_code r \<and> status_code r < 600 then Inl (HTTPError (status_code r))
      else Inr ())"

text \<open>\<^verbatim>\<open>Response.json\<close> parses the body and raises when it is not JSON.\<close>

definition response_json :: "json_lib \<Rightarrow> response \<Rightarrow> error + json" where
  "response_json lib r =
     (case json_loads lib (content r) of
        None \<Rightarrow> Inl RequestsJSONDecodeError
      | Some v \<Rightarrow> Inr v)"

subsection \<open>\<^verbatim>\<open>HttpClient\<close>\<close>

record HttpClient =
  url :: string
  token :: "string option"

text \<open>\<^verbatim>\<open>HttpClient.__repr__\<close>.\<close>

definition HttpClient_repr :: "HttpClient \<Rightarrow> string" where
  "HttpClient_repr self =
     (if token self \<noteq> None then ''HttpClient(url='' @ url self @ '', token=...)''
      else ''HttpClient(url='' @ url self @ '')'')"

text \<open>The list comprehension \<^verbatim>\<open>[json.loads(it) for it in params]\<close>: the first entry
  that does not parse raises.\<close>

fun parse_params :: "json_lib \<Rightarrow> string list \<Rightarrow> error + json list" where
  "parse_params lib [] = Inr []"
| "parse_params lib (it # rest) =
     (case json_loads lib it of
        None \<Rightarrow> Inl JSONDecodeError
      | Some v \<Rightarrow>
          (case parse_params lib rest of
             Inl e \<Rightarrow> Inl e
           | Inr vs \<Rightarrow> Inr (v # vs)))"

text \<open>The dict \<^verbatim>\<open>req\<close> and the \<^verbatim>\<open>auth\<close> argument of \<^verbatim>\<open>HttpClient.call\<close>.\<close>

definition envelope :: "string \<Rightarrow> json list \<Rightarrow> json" where
  "envelope method_name vs =
     JObj [(''jsonrpc'', JStr ''2.0''),
           (''id'', JNull),
           (''method'', JStr method_name),
           (''params'', JArr vs)]"

definition bearer :: "HttpClient \<Rightarrow> string option" where
  "bearer self = (case token self of Some t \<Rightarrow> Some (''Bearer '' @ t) | None \<Rightarrow> None)"

text \<open>\<^verbatim>\<open>isinstance(v, dict)\<close>.\<close>

fun is_dict :: "json \<Rightarrow> bool" where
  "is_dict (JObj _) = True"
| "is_dict _ = False"

text \<open>
  The lines after \<^verbatim>\<open>raise_for_status\<close>: the assertion that the parsed body is a dict,
  the test \<^verbatim>\<open>json_resp.get("result") is None\<close> and the final \<^verbatim>\<open>json.dumps\<close>.
\<close>

definition unpack :: "json_lib \<Rightarrow> json \<Rightarrow> error + string" where
  "unpack lib json_resp =
     (case json_resp of
        JObj d \<Rightarrow>
          (case map_of d ''result'' of
             None \<Rightarrow> Inl (RuntimeError json_resp)
           | Some JNull \<Rightarrow> Inl (RuntimeError json_resp)
           | Some r \<Rightarrow> Inr (json_dumps lib r))
      | _ \<Rightarrow> Inl AssertionError)"

text \<open>\<^verbatim>\<open>HttpClient.call\<close>.\<close>

definition HttpClient_call ::
  "json_lib \<Rightarrow> HttpClient \<Rightarrow> string \<Rightarrow> string list \<Rightarrow> world \<Rightarrow> (error + string) \<times> world" where
  "HttpClient_call lib self method_name params w =
     (case parse_params lib params of
        Inl e \<Rightarrow> (Inl e, w)
      | Inr vs \<Rightarrow>
          (case requests_post (url self) (envelope method_name vs) (bearer self) w of
             (Inl e, w') \<Rightarrow> (Inl e, w')
           | (Inr http_resp, w') \<Rightarrow>
               (case raise_for_status http_resp of
                  Inl e \<Rightarrow> (Inl e, w')
                | Inr _ \<Rightarrow>
                    (case response_json lib http_resp of
                       Inl e \<Rightarrow> (Inl e, w')
                     | Inr json_resp \<Rightarrow> (unpack lib json_resp, w')))))"

subsection \<open>The class \<^verbatim>\<open>Client\<close>\<close>

text \<open>
  An argument or a result of a client method is a plain Python value, which
  \<^verbatim>\<open>json.dumps\<close> serialises, or an instance of a class of the module
  \<^verbatim>\<open>client/definitions.py\<close>. That module is not among the sources, so the type of
  the instances and their two methods \<^verbatim>\<open>model_dump_json(by_alias=True)\<close> and
  \<^verbatim>\<open>model_validate_json\<close> (a class method, here with the name of the class) are
  parameters.
\<close>

datatype 'm pyval = Plain json | Model 'm

record 'm definitions =
  model_dump_json :: "'m \<Rightarrow> string"
  model_validate_json :: "string \<Rightarrow> string \<Rightarrow> 'm option"

text \<open>
  Every method of \<^verbatim>\<open>Client\<close> has the same form,
  \<^verbatim>\<open>def N(self, x1: T1, ..., xn: Tn) -> R: return D(self.call("rpc", [E1, ..., Ek]))\<close>,
  where each \<^verbatim>\<open>Ei\<close> is \<^verbatim>\<open>json.dumps(x)\<close> or \<^verbatim>\<open>x.model_dump_json(by_alias=True)\<close>
  and \<^verbatim>\<open>D\<close> is \<^verbatim>\<open>json.loads\<close> or \<^verbatim>\<open>C.model_validate_json\<close>. A method is kept as
  its name, its parameters with their annotations, its return annotation, the name of
  the remote method, the expressions of the list and the decoder.
\<close>

datatype encoder = JsonDumps string | ModelDumpJson string

datatype decoder = JsonLoads | ModelValidateJson string

datatype descriptor =
  Method (py_name: string) (signature: "(string \<times> string) list") (returns: string)
    (rpc_name: string) (call_params: "encoder list") (result_decoder: decoder)

definition Client_methods :: "descriptor list" where
  "Client_methods = [
  Method ''AuthNew'' [(''params'', ''AuthNewParams'')] ''VecU8LotusJson''
    ''Filecoin.AuthNew'' [ModelDumpJson ''params''] (ModelValidateJson ''VecU8LotusJson''),
  Method ''AuthVerify'' [(''header_raw'', ''str'')] ''AllocStringString''
    ''Filecoin.AuthVerify'' [JsonDumps ''header_raw''] (ModelValidateJson ''AllocStringString''),
  Method ''BeaconGetEntry'' [(''first'', ''int'')] ''BeaconEntryLotusJson''
    ''Filecoin.BeaconGetEntry'' [JsonDumps ''first''] (ModelValidateJson ''BeaconEntryLotusJson''),
  Method ''ChainGetMessage'' [(''msg_cid'', ''CidLotusJsonGenericFor64'')] ''MessageLotusJson''
    ''Filecoin.ChainGetMessage'' [ModelDumpJson ''msg_cid''] (ModelValidateJson ''MessageLotusJson''),
  Method ''ChainGetParentMessages'' [(''block_cid'', ''CidLotusJsonGenericFor64'')] ''ForestFilecoinRpcMethodsChainApiMessage''
    ''Filecoin.ChainGetParentMessages'' [ModelDumpJson ''block_cid''] (ModelValidateJson ''ForestFilecoinRpcMethodsChainApiMessage''),
  Method ''ChainGetParentReceipts'' [(''block_cid'', ''CidLotusJsonGenericFor64'')] ''ForestFilecoinRpcMethodsChainApiReceipt''
    ''Filecoin.ChainGetParentReceipts'' [ModelDumpJson ''block_cid''] (ModelValidateJson ''ForestFilecoinRpcMethodsChainApiReceipt''),
  Method ''ChainGetMessagesInTipset'' [(''tsk'', ''ForestFilecoinLotusJsonCidCidLotusJsonGeneric64'')] ''ForestFilecoinRpcMethodsChainApiMessage''
    ''Filecoin.ChainGetMessagesInTipset'' [ModelDumpJson ''tsk''] (ModelValidateJson ''ForestFilecoinRpcMethodsChainApiMessage''),
  Method ''ChainExport'' [(''params'', ''ChainExportParams'')] ''typing.Any''
    ''Filecoin.ChainExport'' [ModelDumpJson ''params''] (JsonLoads),
  Method ''ChainReadObj'' [(''cid'', ''CidLotusJsonGenericFor64'')] ''VecU8LotusJson''
    ''Filecoin.ChainReadObj'' [ModelDumpJson ''cid''] (ModelValidateJson ''VecU8LotusJson''),
  Method ''ChainHasObj'' [(''cid'', ''CidLotusJsonGenericFor64'')] ''bool''
    ''Filecoin.ChainHasObj'' [ModelDumpJson ''cid''] (JsonLoads),
  Method ''ChainGetBlockMessages'' [(''cid'', ''CidLotusJsonGenericFor64'')] ''BlockMessages''
    ''Filecoin.ChainGetBlockMessages'' [ModelDumpJson ''cid''] (ModelValidateJson ''BlockMessages''),
  Method ''ChainGetPath'' [(''from_'', ''NonEmptyArrayOfCidLotusJsonGenericFor64''), (''to'', ''NonEmptyArrayOfCidLotusJsonGenericFor64'')] ''ForestFilecoinRpcMethodsChainPathChangeForestFilecoinBlocksTipsetLotusJsonTipsetLotusJson''
    ''Filecoin.ChainGetPath'' [ModelDumpJson ''from_'', ModelDumpJson ''to''] (ModelValidateJson ''ForestFilecoinRpcMethodsChainPathChangeForestFilecoinBlocksTipsetLotusJsonTipsetLotusJson''),
  Method ''ChainGetTipSetByHeight'' [(''height'', ''int''), (''tsk'', ''ForestFilecoinLotusJsonCidCidLotusJsonGeneric64'')] ''TipsetLotusJson''
    ''Filecoin.ChainGetTipSetByHeight'' [JsonDumps ''height'', ModelDumpJson ''tsk''] (ModelValidateJson ''TipsetLotusJson''),
  Method ''ChainGetTipSetAfterHeight'' [(''height'', ''int''), (''tsk'', ''ForestFilecoinLotusJsonCidCidLotusJsonGeneric64'')] ''TipsetLotusJson''
    ''Filecoin.ChainGetTipSetAfterHeight'' [JsonDumps ''height'', ModelDumpJson ''tsk''] (ModelValidateJson ''TipsetLotusJson''),
  Method ''ChainGetGenesis'' [] ''typing.Any''
    ''Filecoin.ChainGetGenesis'' [] (JsonLoads),
  Method ''ChainHead'' [] ''TipsetLotusJson''
    ''Filecoin.ChainHead'' [] (ModelValidateJson ''TipsetLotusJson''),
  Method ''ChainGetBlock'' [(''cid'', ''CidLotusJsonGenericFor64'')] ''ForestFilecoinLotusJsonBlockHeaderBlockHeaderLotusJson''
    ''Filecoin.ChainGetBlock'' [ModelDumpJson ''cid''] (ModelValidateJson ''ForestFilecoinLotusJsonBlockHeaderBlockHeaderLotusJson''),
  Method ''ChainGetTipSet'' [(''tsk'', ''ForestFilecoinLotusJsonCidCidLotusJsonGeneric64'')] ''TipsetLotusJson''
    ''Filecoin.ChainGetTipSet'' [ModelDumpJson ''tsk''] (ModelValidateJson ''TipsetLotusJson''),
  Method ''ChainSetHead'' [(''tsk'', ''ForestFilecoinLotusJsonCidCidLotusJsonGeneric64'')] ''None''
    ''Filecoin.ChainSetHead'' [ModelDumpJson ''tsk''] (JsonLoads),
  Method ''ChainGetMinBaseFee'' [(''lookback'', ''int'')] ''str''
    ''Filecoin.ChainGetMinBaseFee'' [JsonDumps ''lookback''] (JsonLoads),
  Method ''ChainTipSetWeight'' [(''tsk'', ''ForestFilecoinLotusJsonCidCidLotusJsonGeneric64'')] ''String''
    ''Filecoin.ChainTipSetWeight'' [ModelDumpJson ''tsk''] (ModelValidateJson ''String''),
  Method ''Session'' [] ''str''
    ''Filecoin.Session'' [] (JsonLoads),
  Method ''Version'' [] ''PublicVersion''
    ''Filecoin.Version'' [] (ModelValidateJson ''PublicVersion''),
  Method ''Shutdown'' [] ''None''
    ''Filecoin.Shutdown'' [] (JsonLoads),
  Method ''StartTime'' [] ''str''
    ''Filecoin.StartTime'' [] (JsonLoads),
  Method ''GasEstimateGasLimit'' [(''msg'', ''MessageLotusJson''), (''tsk'', ''ForestFilecoinLotusJsonCidCidLotusJsonGeneric64'')] ''int''
    ''Filecoin.GasEstimateGasLimit'' [ModelDumpJson ''msg'', ModelDumpJson ''tsk''] (JsonLoads),
  Method ''GasEstimateMessageGas'' [(''msg'', ''MessageLotusJson''), (''spec'', ''typing.Any''), (''tsk'', ''ForestFilecoinLotusJsonCidCidLotusJsonGeneric64'')] ''MessageLotusJson''
    ''Filecoin.GasEstimateMessageGas'' [ModelDumpJson ''msg'', JsonDumps ''spec'', ModelDumpJson ''tsk''] (ModelValidateJson ''MessageLotusJson''),
  Method ''GasEstimateFeeCap'' [(''message'', ''MessageLotusJson''), (''max_queue_blocks'', ''int''), (''tipset_key'', ''ForestFilecoinLotusJsonCidCidLotusJsonGeneric64'')] ''str''
    ''Filecoin.GasEstimateFeeCap'' [ModelDumpJson ''message'', JsonDumps ''max_queue_blocks'', ModelDumpJson ''tipset_key''] (JsonLoads),
  Method ''GasEstimateGasPremium'' [(''nblocksincl'', ''int''), (''sender'', ''String''), (''gas_limit'', ''int''), (''tipset_key'', ''ForestFilecoinLotusJsonCidCidLotusJsonGeneric64'')] ''str''
    ''Filecoin.GasEstimateGasPremium'' [JsonDumps ''nblocksincl'', ModelDumpJson ''sender'', JsonDumps ''gas_limit'', ModelDumpJson ''tipset_key''] (JsonLoads),
  Method ''MpoolGetNonce'' [(''address'', ''String'')] ''int''
    ''Filecoin.MpoolGetNonce'' [ModelDumpJson ''address''] (JsonLoads),
  Method ''MpoolPending'' [(''tsk'', ''ForestFilecoinLotusJsonCidCidLotusJsonGeneric64'')] ''ForestFilecoinLotusJsonSignedMessageSignedMessageLotusJson''
    ''Filecoin.MpoolPending'' [ModelDumpJson ''tsk''] (ModelValidateJson ''ForestFilecoinLotusJsonSignedMessageSignedMessageLotusJson''),
  Method ''MpoolSelect'' [(''tsk'', ''ForestFilecoinLotusJsonCidCidLotusJsonGeneric64''), (''tq'', ''float'')] ''ForestFilecoinLotusJsonSignedMessageSignedMessageLotusJson''
    ''Filecoin.MpoolSelect'' [ModelDumpJson ''tsk'', JsonDumps ''tq''] (ModelValidateJson ''ForestFilecoinLotusJsonSignedMessageSignedMessageLotusJson''),
  Method ''MpoolPush'' [(''msg'', ''ForestFilecoinLotusJsonSignedMessageSignedMessageLotusJson'')] ''CidLotusJsonGenericFor64''
    ''Filecoin.MpoolPush'' [ModelDumpJson ''msg''] (ModelValidateJson ''CidLotusJsonGenericFor64''),
  Method ''MpoolPushMessage'' [(''usmg'', ''MessageLotusJson''), (''spec'', ''typing.Any'')] ''ForestFilecoinLotusJsonSignedMessageSignedMessageLotusJson''
    ''Filecoin.MpoolPushMessage'' [ModelDumpJson ''usmg'', JsonDumps ''spec''] (ModelValidateJson ''ForestFilecoinLotusJsonSignedMessageSignedMessageLotusJson''),
  Method ''NetAddrsListen'' [] ''AddrInfo''
    ''Filecoin.NetAddrsListen'' [] (ModelValidateJson ''AddrInfo''),
  Method ''NetPeers'' [] ''AddrInfo''
    ''Filecoin.NetPeers'' [] (ModelValidateJson ''AddrInfo''),
  Method ''NetListening'' [] ''bool''
    ''Filecoin.NetListening'' [] (JsonLoads),
  Method ''NetInfo'' [] ''NetInfoResult''
    ''Forest.NetInfo'' [] (ModelValidateJson ''NetInfoResult''),
  Method ''NetConnect'' [(''info'', ''AddrInfo'')] ''None''
    ''Filecoin.NetConnect'' [ModelDumpJson ''info''] (JsonLoads),
  Method ''NetDisconnect'' [(''id'', ''str'')] ''None''
    ''Filecoin.NetDisconnect'' [JsonDumps ''id''] (JsonLoads),
  Method ''NetAgentVersion'' [(''id'', ''str'')] ''str''
    ''Filecoin.NetAgentVersion'' [JsonDumps ''id''] (JsonLoads),
  Method ''NetAutoNatStatus'' [] ''NatStatusResult''
    ''Filecoin.NetAutoNatStatus'' [] (ModelValidateJson ''NatStatusResult''),
  Method ''NetVersion'' [] ''str''
    ''Filecoin.NetVersion'' [] (JsonLoads),
  Method ''MinerGetBaseInfo'' [(''address'', ''String''), (''epoch'', ''int''), (''tsk'', ''ForestFilecoinLotusJsonCidCidLotusJsonGeneric64'')] ''typing.Any''
    ''Filecoin.MinerGetBaseInfo'' [ModelDumpJson ''address'', JsonDumps ''epoch'', ModelDumpJson ''tsk''] (JsonLoads),
  Method ''StateCall'' [(''message'', ''MessageLotusJson''), (''tsk'', ''ForestFilecoinLotusJsonCidCidLotusJsonGeneric64'')] ''ApiInvocResult''
    ''Filecoin.StateCall'' [ModelDumpJson ''message'', ModelDumpJson ''tsk''] (ModelValidateJson ''ApiInvocResult''),
  Method ''StateGetBeaconEntry'' [(''epoch'', ''int'')] ''BeaconEntryLotusJson''
    ''Filecoin.StateGetBeaconEntry'' [JsonDumps ''epoch''] (ModelValidateJson ''BeaconEntryLotusJson''),
  Method ''StateListMessages'' [(''message_filter'', ''MessageFilter''), (''tipset_key'', ''ForestFilecoinLotusJsonCidCidLotusJsonGeneric64''), (''max_height'', ''int'')] ''ForestFilecoinLotusJsonCidCidLotusJsonGeneric64''
    ''Filecoin.StateListMessages'' [ModelDumpJson ''message_filter'', ModelDumpJson ''tipset_key'', JsonDumps ''max_height''] (ModelValidateJson ''ForestFilecoinLotusJsonCidCidLotusJsonGeneric64''),
  Method ''StateNetworkName'' [] ''str''
    ''Filecoin.StateNetworkName'' [] (JsonLoads),
  Method ''StateReplay'' [(''cid'', ''CidLotusJsonGenericFor64''), (''tsk'', ''ForestFilecoinLotusJsonCidCidLotusJsonGeneric64'')] ''InvocResult''
    ''Filecoin.StateReplay'' [ModelDumpJson ''cid'', ModelDumpJson ''tsk''] (ModelValidateJson ''InvocResult''),
  Method ''StateSectorGetInfo'' [(''miner_address'', ''String''), (''sector_number'', ''int''), (''tipset_key'', ''ForestFilecoinLotusJsonCidCidLotusJsonGeneric64'')] ''SectorOnChainInfo''
    ''Filecoin.StateSectorGetInfo'' [ModelDumpJson ''miner_address'', JsonDumps ''sector_number'', ModelDumpJson ''tipset_key''] (ModelValidateJson ''SectorOnChainInfo''),
  Method ''StateSectorPreCommitInfo'' [(''miner_address'', ''String''), (''sector_number'', ''int''), (''tipset_key'', ''ForestFilecoinLotusJsonCidCidLotusJsonGeneric64'')] ''SectorPreCommitOnChainInfo''
    ''Filecoin.StateSectorPreCommitInfo'' [ModelDumpJson ''miner_address'', JsonDumps ''sector_number'', ModelDumpJson ''tipset_key''] (ModelValidateJson ''SectorPreCommitOnChainInfo''),
  Method ''StateAccountKey'' [(''address'', ''String''), (''tipset_key'', ''ForestFilecoinLotusJsonCidCidLotusJsonGeneric64'')] ''String''
    ''Filecoin.StateAccountKey'' [ModelDumpJson ''address'', ModelDumpJson ''tipset_key''] (ModelValidateJson ''String''),
  Method ''StateLookupID'' [(''address'', ''String''), (''tipset_key'', ''ForestFilecoinLotusJsonCidCidLotusJsonGeneric64'')] ''String''
    ''Filecoin.StateLookupID'' [ModelDumpJson ''address'', ModelDumpJson ''tipset_key''] (ModelValidateJson ''String''),
  Method ''StateGetActor'' [(''address'', ''String''), (''tipset_key'', ''ForestFilecoinLotusJsonCidCidLotusJsonGeneric64'')] ''typing.Any''
    ''Filecoin.StateGetActor'' [ModelDumpJson ''address'', ModelDumpJson ''tipset_key''] (JsonLoads),
  Method ''StateMinerInfo'' [(''address'', ''String''), (''tipset_key'', ''ForestFilecoinLotusJsonCidCidLotusJsonGeneric64'')] ''MinerInfoLotusJson''
    ''Filecoin.StateMinerInfo'' [ModelDumpJson ''address'', ModelDumpJson ''tipset_key''] (ModelValidateJson ''MinerInfoLotusJson''),
  Method ''StateMinerActiveSectors'' [(''address'', ''String''), (''tipset_key'', ''ForestFilecoinLotusJsonCidCidLotusJsonGeneric64'')] ''SectorOnChainInfo''
    ''Filecoin.StateMinerActiveSectors'' [ModelDumpJson ''address'', ModelDumpJson ''tipset_key''] (ModelValidateJson ''SectorOnChainInfo''),
  Method ''StateMinerPartitions'' [(''address'', ''String''), (''deadline_index'', ''int''), (''tipset_key'', ''ForestFilecoinLotusJsonCidCidLotusJsonGeneric64'')] ''ForestFilecoinRpcTypesMinerPartitions''
    ''Filecoin.StateMinerPartitions'' [ModelDumpJson ''address'', JsonDumps ''deadline_index'', ModelDumpJson ''tipset_key''] (ModelValidateJson ''ForestFilecoinRpcTypesMinerPartitions''),
  Method ''StateMinerSectors'' [(''address'', ''String''), (''sectors'', ''typing.Any''), (''tipset_key'', ''ForestFilecoinLotusJsonCidCidLotusJsonGeneric64'')] ''SectorOnChainInfo''
    ''Filecoin.StateMinerSectors'' [ModelDumpJson ''address'', JsonDumps ''sectors'', ModelDumpJson ''tipset_key''] (ModelValidateJson ''SectorOnChainInfo''),
  Method ''StateMinerSectorCount'' [(''address'', ''String''), (''tipset_key'', ''ForestFilecoinLotusJsonCidCidLotusJsonGeneric64'')] ''MinerSectors''
    ''Filecoin.StateMinerSectorCount'' [ModelDumpJson ''address'', ModelDumpJson ''tipset_key''] (ModelValidateJson ''MinerSectors''),
  Method ''StateMinerPower'' [(''address'', ''String''), (''tipset_key'', ''ForestFilecoinLotusJsonCidCidLotusJsonGeneric64'')] ''MinerPowerLotusJson''
    ''Filecoin.StateMinerPower'' [ModelDumpJson ''address'', ModelDumpJson ''tipset_key''] (ModelValidateJson ''MinerPowerLotusJson''),
  Method ''StateMinerDeadlines'' [(''address'', ''String''), (''tipset_key'', ''ForestFilecoinLotusJsonCidCidLotusJsonGeneric64'')] ''ForestFilecoinRpcTypesApiDeadline''
    ''Filecoin.StateMinerDeadlines'' [ModelDumpJson ''address'', ModelDumpJson ''tipset_key''] (ModelValidateJson ''ForestFilecoinRpcTypesApiDeadline''),
  Method ''StateMinerProvingDeadline'' [(''address'', ''String''), (''tipset_key'', ''ForestFilecoinLotusJsonCidCidLotusJsonGeneric64'')] ''ApiDeadlineInfo''
    ''Filecoin.StateMinerProvingDeadline'' [ModelDumpJson ''address'', ModelDumpJson ''tipset_key''] (ModelValidateJson ''ApiDeadlineInfo''),
  Method ''StateMinerFaults'' [(''address'', ''String''), (''tipset_key'', ''ForestFilecoinLotusJsonCidCidLotusJsonGeneric64'')] ''BitFieldLotusJson''
    ''Filecoin.StateMinerFaults'' [ModelDumpJson ''address'', ModelDumpJson ''tipset_key''] (ModelValidateJson ''BitFieldLotusJson''),
  Method ''StateMinerRecoveries'' [(''address'', ''String''), (''tipset_key'', ''ForestFilecoinLotusJsonCidCidLotusJsonGeneric64'')] ''BitFieldLotusJson''
    ''Filecoin.StateMinerRecoveries'' [ModelDumpJson ''address'', ModelDumpJson ''tipset_key''] (ModelValidateJson ''BitFieldLotusJson''),
  Method ''StateMinerAvailableBalance'' [(''address'', ''String''), (''tipset_key'', ''ForestFilecoinLotusJsonCidCidLotusJsonGeneric64'')] ''String''
    ''Filecoin.StateMinerAvailableBalance'' [ModelDumpJson ''address'', ModelDumpJson ''tipset_key''] (ModelValidateJson ''String''),
  Method ''StateMinerInitialPledgeCollateral'' [(''address'', ''String''), (''sector_pre_commit_info'', ''SectorPreCommitInfo2''), (''tipset_key'', ''ForestFilecoinLotusJsonCidCidLotusJsonGeneric64'')] ''String''
    ''Filecoin.StateMinerInitialPledgeCollateral'' [ModelDumpJson ''address'', ModelDumpJson ''sector_pre_commit_info'', ModelDumpJson ''tipset_key''] (ModelValidateJson ''String''),
  Method ''StateGetReceipt'' [(''cid'', ''CidLotusJsonGenericFor64''), (''tipset_key'', ''ForestFilecoinLotusJsonCidCidLotusJsonGeneric64'')] ''ReceiptLotusJson''
    ''Filecoin.StateGetReceipt'' [ModelDumpJson ''cid'', ModelDumpJson ''tipset_key''] (ModelValidateJson ''ReceiptLotusJson''),
  Method ''StateGetRandomnessFromTickets'' [(''personalization'', ''int''), (''rand_epoch'', ''int''), (''entropy'', ''VecU8LotusJson''), (''tipset_key'', ''ForestFilecoinLotusJsonCidCidLotusJsonGeneric64'')] ''VecU8LotusJson''
    ''Filecoin.StateGetRandomnessFromTickets'' [JsonDumps ''personalization'', JsonDumps ''rand_epoch'', ModelDumpJson ''entropy'', ModelDumpJson ''tipset_key''] (ModelValidateJson ''VecU8LotusJson''),
  Method ''StateGetRandomnessFromBeacon'' [(''personalization'', ''int''), (''rand_epoch'', ''int''), (''entropy'', ''VecU8LotusJson''), (''tipset_key'', ''ForestFilecoinLotusJsonCidCidLotusJsonGeneric64'')] ''VecU8LotusJson''
    ''Filecoin.StateGetRandomnessFromBeacon'' [JsonDumps ''personalization'', JsonDumps ''rand_epoch'', ModelDumpJson ''entropy'', ModelDumpJson ''tipset_key''] (ModelValidateJson ''VecU8LotusJson''),
  Method ''StateReadState'' [(''address'', ''String''), (''tipset_key'', ''ForestFilecoinLotusJsonCidCidLotusJsonGeneric64'')] ''ApiActorState''
    ''Filecoin.StateReadState'' [ModelDumpJson ''address'', ModelDumpJson ''tipset_key''] (ModelValidateJson ''ApiActorState''),
  Method ''StateCirculatingSupply'' [(''tipset_key'', ''ForestFilecoinLotusJsonCidCidLotusJsonGeneric64'')] ''String''
    ''Filecoin.StateCirculatingSupply'' [ModelDumpJson ''tipset_key''] (ModelValidateJson ''String''),
  Method ''MsigGetAvailableBalance'' [(''address'', ''String''), (''tipset_key'', ''ForestFilecoinLotusJsonCidCidLotusJsonGeneric64'')] ''String''
    ''Filecoin.MsigGetAvailableBalance'' [ModelDumpJson ''address'', ModelDumpJson ''tipset_key''] (ModelValidateJson ''String''),
  Method ''MsigGetPending'' [(''address'', ''String''), (''tipset_key'', ''ForestFilecoinLotusJsonCidCidLotusJsonGeneric64'')] ''ForestFilecoinRpcTypesTransaction''
    ''Filecoin.MsigGetPending'' [ModelDumpJson ''address'', ModelDumpJson ''tipset_key''] (ModelValidateJson ''ForestFilecoinRpcTypesTransaction''),
  Method ''StateVerifiedClientStatus'' [(''address'', ''String''), (''tipset_key'', ''ForestFilecoinLotusJsonCidCidLotusJsonGeneric64'')] ''typing.Any''
    ''Filecoin.StateVerifiedClientStatus'' [ModelDumpJson ''address'', ModelDumpJson ''tipset_key''] (JsonLoads),
  Method ''StateVMCirculatingSupplyInternal'' [(''tipset_key'', ''ForestFilecoinLotusJsonCidCidLotusJsonGeneric64'')] ''CirculatingSupply''
    ''Filecoin.StateVMCirculatingSupplyInternal'' [ModelDumpJson ''tipset_key''] (ModelValidateJson ''CirculatingSupply''),
  Method ''StateListMiners'' [(''tipset_key'', ''ForestFilecoinLotusJsonCidCidLotusJsonGeneric64'')] ''ForestFilecoinLotusJsonStringifyForestFilecoinShimAddressAddress''
    ''Filecoin.StateListMiners'' [ModelDumpJson ''tipset_key''] (ModelValidateJson ''ForestFilecoinLotusJsonStringifyForestFilecoinShimAddressAddress''),
  Method ''StateNetworkVersion'' [(''tipset_key'', ''ForestFilecoinLotusJsonCidCidLotusJsonGeneric64'')] ''int''
    ''Filecoin.StateNetworkVersion'' [ModelDumpJson ''tipset_key''] (JsonLoads),
  Method ''StateMarketBalance'' [(''address'', ''String''), (''tipset_key'', ''ForestFilecoinLotusJsonCidCidLotusJsonGeneric64'')] ''MarketBalance''
    ''Filecoin.StateMarketBalance'' [ModelDumpJson ''address'', ModelDumpJson ''tipset_key''] (ModelValidateJson ''MarketBalance''),
  Method ''StateMarketDeals'' [(''tipset_key'', ''ForestFilecoinLotusJsonCidCidLotusJsonGeneric64'')] ''typing.Any''
    ''Filecoin.StateMarketDeals'' [ModelDumpJson ''tipset_key''] (JsonLoads),
  Method ''StateDealProviderCollateralBounds'' [(''size'', ''int''), (''verified'', ''bool''), (''tipset_key'', ''ForestFilecoinLotusJsonCidCidLotusJsonGeneric64'')] ''DealCollateralBounds''
    ''Filecoin.StateDealProviderCollateralBounds'' [JsonDumps ''size'', JsonDumps ''verified'', ModelDumpJson ''tipset_key''] (ModelValidateJson ''DealCollateralBounds''),
  Method ''StateMarketStorageDeal'' [(''deal_id'', ''int''), (''tipset_key'', ''ForestFilecoinLotusJsonCidCidLotusJsonGeneric64'')] ''ApiMarketDeal''
    ''Filecoin.StateMarketStorageDeal'' [JsonDumps ''deal_id'', ModelDumpJson ''tipset_key''] (ModelValidateJson ''ApiMarketDeal''),
  Method ''StateWaitMsg'' [(''message_cid'', ''CidLotusJsonGenericFor64''), (''confidence'', ''int'')] ''MessageLookup''
    ''Filecoin.StateWaitMsg'' [ModelDumpJson ''message_cid'', JsonDumps ''confidence''] (ModelValidateJson ''MessageLookup''),
  Method ''StateSearchMsg'' [(''message_cid'', ''CidLotusJsonGenericFor64'')] ''MessageLookup''
    ''Filecoin.StateSearchMsg'' [ModelDumpJson ''message_cid''] (ModelValidateJson ''MessageLookup''),
  Method ''StateSearchMsgLimited'' [(''message_cid'', ''CidLotusJsonGenericFor64''), (''look_back_limit'', ''int'')] ''MessageLookup''
    ''Filecoin.StateSearchMsgLimited'' [ModelDumpJson ''message_cid'', JsonDumps ''look_back_limit''] (ModelValidateJson ''MessageLookup''),
  Method ''StateFetchRoot'' [(''root_cid'', ''CidLotusJsonGenericFor64''), (''save_to_file'', ''typing.Any'')] ''str''
    ''Filecoin.StateFetchRoot'' [ModelDumpJson ''root_cid'', JsonDumps ''save_to_file''] (JsonLoads),
  Method ''StateMinerPreCommitDepositForPower'' [(''address'', ''String''), (''sector_pre_commit_info'', ''SectorPreCommitInfo2''), (''tipset_key'', ''ForestFilecoinLotusJsonCidCidLotusJsonGeneric64'')] ''String''
    ''Filecoin.StateMinerPreCommitDepositForPower'' [ModelDumpJson ''address'', ModelDumpJson ''sector_pre_commit_info'', ModelDumpJson ''tipset_key''] (ModelValidateJson ''String''),
  Method ''NodeStatus'' [] ''NodeStatusResult''
    ''Filecoin.NodeStatus'' [] (ModelValidateJson ''NodeStatusResult''),
  Method ''SyncCheckBad'' [(''cid'', ''CidLotusJsonGenericFor64'')] ''str''
    ''Filecoin.SyncCheckBad'' [ModelDumpJson ''cid''] (JsonLoads),
  Method ''SyncMarkBad'' [(''cid'', ''CidLotusJsonGenericFor64'')] ''None''
    ''Filecoin.SyncMarkBad'' [ModelDumpJson ''cid''] (JsonLoads),
  Method ''SyncState'' [] ''RpcSyncState''
    ''Filecoin.SyncState'' [] (ModelValidateJson ''RpcSyncState''),
  Method ''SyncSubmitBlock'' [(''blk'', ''GossipBlockLotusJson'')] ''None''
    ''Filecoin.SyncSubmitBlock'' [ModelDumpJson ''blk''] (JsonLoads),
  Method ''WalletBalance'' [(''address'', ''String'')] ''String''
    ''Filecoin.WalletBalance'' [ModelDumpJson ''address''] (ModelValidateJson ''String''),
  Method ''WalletDefaultAddress'' [] ''typing.Any''
    ''Filecoin.WalletDefaultAddress'' [] (JsonLoads),
  Method ''WalletExport'' [(''address'', ''String'')] ''KeyInfoLotusJson''
    ''Filecoin.WalletExport'' [ModelDumpJson ''address''] (ModelValidateJson ''KeyInfoLotusJson''),
  Method ''WalletHas'' [(''address'', ''String'')] ''bool''
    ''Filecoin.WalletHas'' [ModelDumpJson ''address''] (JsonLoads),
  Method ''WalletImport'' [(''key'', ''KeyInfoLotusJson'')] ''String''
    ''Filecoin.WalletImport'' [ModelDumpJson ''key''] (ModelValidateJson ''String''),
  Method ''WalletList'' [] ''ForestFilecoinLotusJsonStringifyForestFilecoinShimAddressAddress''
    ''Filecoin.WalletList'' [] (ModelValidateJson ''ForestFilecoinLotusJsonStringifyForestFilecoinShimAddressAddress''),
  Method ''WalletNew'' [(''signature_type'', ''SignatureTypeLotusJson2'')] ''String''
    ''Filecoin.WalletNew'' [ModelDumpJson ''signature_type''] (ModelValidateJson ''String''),
  Method ''WalletSetDefault'' [(''address'', ''String'')] ''None''
    ''Filecoin.WalletSetDefault'' [ModelDumpJson ''address''] (JsonLoads),
  Method ''WalletSign'' [(''address'', ''String''), (''message'', ''VecU8LotusJson'')] ''SignatureLotusJson''
    ''Filecoin.WalletSign'' [ModelDumpJson ''address'', ModelDumpJson ''message''] (ModelValidateJson ''SignatureLotusJson''),
  Method ''WalletValidateAddress'' [(''address'', ''str'')] ''String''
    ''Filecoin.WalletValidateAddress'' [JsonDumps ''address''] (ModelValidateJson ''String''),
  Method ''WalletVerify'' [(''address'', ''String''), (''message'', ''VecU8LotusJson''), (''signature'', ''SignatureLotusJson'')] ''bool''
    ''Filecoin.WalletVerify'' [ModelDumpJson ''address'', ModelDumpJson ''message'', ModelDumpJson ''signature''] (JsonLoads),
  Method ''WalletDelete'' [(''address'', ''String'')] ''None''
    ''Filecoin.WalletDelete'' [ModelDumpJson ''address''] (JsonLoads),
  Method ''Web3ClientVersion'' [] ''str''
    ''Filecoin.Web3ClientVersion'' [] (JsonLoads),
  Method ''EthSyncing'' [] ''EthSyncingResultLotusJson''
    ''Filecoin.EthSyncing'' [] (ModelValidateJson ''EthSyncingResultLotusJson''),
  Method ''EthAccounts'' [] ''AllocStringString''
    ''Filecoin.EthAccounts'' [] (ModelValidateJson ''AllocStringString''),
  Method ''EthBlockNumber'' [] ''str''
    ''Filecoin.EthBlockNumber'' [] (JsonLoads),
  Method ''EthChainId'' [] ''str''
    ''Filecoin.EthChainId'' [] (JsonLoads),
  Method ''EthGasPrice'' [] ''BigInt''
    ''Filecoin.EthGasPrice'' [] (ModelValidateJson ''BigInt''),
  Method ''EthGetBalance'' [(''address'', ''Address''), (''block_param'', ''str'')] ''BigInt''
    ''Filecoin.EthGetBalance'' [ModelDumpJson ''address'', JsonDumps ''block_param''] (ModelValidateJson ''BigInt''),
  Method ''EthGetBlockByNumber'' [(''block_param'', ''str''), (''full_tx_info'', ''bool'')] ''Block''
    ''Filecoin.EthGetBlockByNumber'' [JsonDumps ''block_param'', JsonDumps ''full_tx_info''] (ModelValidateJson ''Block'')]"

text \<open>Positional arguments are bound to the parameters in order; a wrong number of
  arguments raises \<^verbatim>\<open>TypeError\<close>.\<close>

definition bind_args :: "(string \<times> string) list \<Rightarrow> 'm pyval list \<Rightarrow> error + (string \<times> 'm pyval) list" where
  "bind_args sg args =
     (if length args = length sg then Inr (zip (map fst sg) args) else Inl TypeError)"

text \<open>
  One expression of the parameter list. \<^verbatim>\<open>json.dumps\<close> raises \<^verbatim>\<open>TypeError\<close> on an
  object that is not a plain value, and a plain value has no attribute
  \<^verbatim>\<open>model_dump_json\<close>.
\<close>

definition eval_encoder ::
  "json_lib \<Rightarrow> 'm definitions \<Rightarrow> (string \<times> 'm pyval) list \<Rightarrow> encoder \<Rightarrow> error + string" where
  "eval_encoder lib defs env e =
     (case e of
        JsonDumps x \<Rightarrow>
          (case map_of env x of
             None \<Rightarrow> Inl NameError
           | Some (Plain v) \<Rightarrow> Inr (json_dumps lib v)
           | Some (Model _) \<Rightarrow> Inl TypeError)
      | ModelDumpJson x \<Rightarrow>
          (case map_of env x of
             None \<Rightarrow> Inl NameError
           | Some (Plain _) \<Rightarrow> Inl AttributeError
           | Some (Model v) \<Rightarrow> Inr (model_dump_json defs v)))"

text \<open>The list display is evaluated from left to right and stops at the first
  exception.\<close>

fun eval_params ::
  "json_lib \<Rightarrow> 'm definitions \<Rightarrow> (string \<times> 'm pyval) list \<Rightarrow> encoder list \<Rightarrow> error + string list" where
  "eval_params lib defs env [] = Inr []"
| "eval_params lib defs env (e # es) =
     (case eval_encoder lib defs env e of
        Inl err \<Rightarrow> Inl err
      | Inr s \<Rightarrow>
          (case eval_params lib defs env es of
             Inl err \<Rightarrow> Inl err
           | Inr ss \<Rightarrow> Inr (s # ss)))"

definition decode :: "json_lib \<Rightarrow> 'm definitions \<Rightarrow> decoder \<Rightarrow> string \<Rightarrow> error + 'm pyval" where
  "decode lib defs d s =
     (case d of
        JsonLoads \<Rightarrow>
          (case json_loads lib s of
             None \<Rightarrow> Inl JSONDecodeError
           | Some v \<Rightarrow> Inr (Plain v))
      | ModelValidateJson cls \<Rightarrow>
          (case model_validate_json defs cls s of
             None \<Rightarrow> Inl ValidationError
           | Some v \<Rightarrow> Inr (Model v)))"

text \<open>What a method does with the outcome of \<^verbatim>\<open>self.call\<close>: an exception
  propagates, a returned string is decoded.\<close>

definition finish ::
  "json_lib \<Rightarrow> 'm definitions \<Rightarrow> descriptor \<Rightarrow> (error + string) \<times> 'w \<Rightarrow> (error + 'm pyval) \<times> 'w" where
  "finish lib defs m out =
     (case out of
        (Inl e, w') \<Rightarrow> (Inl e, w')
      | (Inr s, w') \<Rightarrow> (decode lib defs (result_decoder m) s, w'))"

text \<open>
  A call of the method \<open>m\<close> of a client whose \<^verbatim>\<open>call\<close> is the transport
  \<open>call\<close>, which may change a state of type \<open>'w\<close>.
\<close>

definition Client_method ::
  "json_lib \<Rightarrow> 'm definitions \<Rightarrow> (string \<Rightarrow> string list \<Rightarrow> 'w \<Rightarrow> (error + string) \<times> 'w)
     \<Rightarrow> descriptor \<Rightarrow> 'm pyval list \<Rightarrow> 'w \<Rightarrow> (error + 'm pyval) \<times> 'w" where
  "Client_method lib defs call m args w =
     (case bind_args (signature m) args of
        Inl e \<Rightarrow> (Inl e, w)
      | Inr env \<Rightarrow>
          (case eval_params lib defs env (call_params m) of
             Inl e \<Rightarrow> (Inl e, w)
           | Inr ps \<Rightarrow> finish lib defs m (call (rpc_name m) ps w)))"

text \<open>
  The annotations of plain values, and what the declared types ask of a list of
  arguments: a plain value where the annotation is a plain type, an instance where it
  is a class.
\<close>

definition plain_annotation :: "string \<Rightarrow> bool" where
  "plain_annotation ty =
     (ty = ''int'' \<or> ty = ''str'' \<or> ty = ''bool'' \<or> ty = ''float'' \<or> ty = ''typing.Any'')"

fun is_plain :: "'m pyval \<Rightarrow> bool" where
  "is_plain (Plain _) = True"
| "is_plain (Model _) = False"

definition well_typed :: "descriptor \<Rightarrow> 'm pyval list \<Rightarrow> bool" where
  "well_typed m args =
     list_all2 (\<lambda>p a. is_plain a = plain_annotation (snd p)) (signature m) args"

fun serialize :: "json_lib \<Rightarrow> 'm definitions \<Rightarrow> 'm pyval \<Rightarrow> string" where
  "serialize lib defs (Plain v) = json_dumps lib v"
| "serialize lib defs (Model v) = model_dump_json defs v"

text \<open>
  The check of one method of the table: the list passed to \<^verbatim>\<open>self.call\<close> names the
  declared parameters, each once and in the declared order, with \<^verbatim>\<open>json.dumps\<close> for
  the plain annotations and \<^verbatim>\<open>model_dump_json\<close> for the classes.
\<close>

definition encoder_for :: "string \<times> string \<Rightarrow> encoder" where
  "encoder_for p = (if plain_annotation (snd p) then JsonDumps (fst p) else ModelDumpJson (fst p))"

definition follows_signature :: "descriptor \<Rightarrow> bool" where
  "follows_signature m =
     (distinct (map fst (signature m)) \<and> call_params m = map encoder_for (signature m))"

subsection \<open>A reference codec and a test server\<close>

text \<open>
  The examples below run the model on concrete texts. They use a small JSON codec for
  \<^verbatim>\<open>null\<close>, the booleans, integers, strings of printable ASCII characters, arrays and
  objects, which writes the separators \<^verbatim>\<open>", "\<close> and \<^verbatim>\<open>": "\<close> as \<^verbatim>\<open>json.dumps\<close> does
  and keeps the last value of a repeated key as \<^verbatim>\<open>json.loads\<close> does. The parser
  takes a bound on the number of nested calls, which \<open>ref_loads\<close> sets from the length
  of the text.
\<close>

fun digits :: "nat \<Rightarrow> string" where
  "digits n = (if n < 10 then [''0123456789'' ! n] else digits (n div 10) @ [''0123456789'' ! (n mod 10)])"

definition quote :: "string \<Rightarrow> string" where
  "quote s = CHR 0x22 # concat (map (\<lambda>c. if c = CHR 0x22 \<or> c = CHR 0x5C then [CHR 0x5C, c] else [c]) s) @ [CHR 0x22]"

fun join :: "string \<Rightarrow> string list \<Rightarrow> string" where
  "join sep [] = []"
| "join sep [s] = s"
| "join sep (s # t # ss) = s @ sep @ join sep (t # ss)"

primrec ref_dumps :: "json \<Rightarrow> string" where
  "ref_dumps JNull = ''null''"
| "ref_dumps (JBool b) = (if b then ''true'' else ''false'')"
| "ref_dumps (JInt i) = (if i < 0 then CHR ''-'' # digits (nat (- i)) else digits (nat i))"
| "ref_dumps (JFloat r) = r"
| "ref_dumps (JStr s) = quote s"
| "ref_dumps (JArr xs) = ''['' @ join '', '' (map ref_dumps xs) @ '']''"
| "ref_dumps (JObj kvs) =
     ''{'' @ join '', '' (map (\<lambda>(k, s). quote k @ '': '' @ s) (map (map_prod id ref_dumps) kvs)) @ ''}''"

definition is_space :: "char \<Rightarrow> bool" where
  "is_space c = (c = CHR '' '' \<or> c = CHR 0x09 \<or> c = CHR 0x0A \<or> c = CHR 0x0D)"

definition is_digit :: "char \<Rightarrow> bool" where
  "is_digit c = (48 \<le> (of_char c :: nat) \<and> (of_char c :: nat) \<le> 57)"

fun skip_ws :: "string \<Rightarrow> string" where
  "skip_ws [] = []"
| "skip_ws (c # cs) = (if is_space c then skip_ws cs else c # cs)"

fun lex_digits :: "nat \<Rightarrow> string \<Rightarrow> nat \<times> string" where
  "lex_digits acc [] = (acc, [])"
| "lex_digits acc (c # cs) =
     (if is_digit c then lex_digits (10 * acc + (of_char c - 48)) cs else (acc, c # cs))"

fun lex_string :: "string \<Rightarrow> (string \<times> string) option" where
  "lex_string [] = None"
| "lex_string (c # cs) =
     (if c = CHR 0x22 then Some ([], cs)
      else if c = CHR 0x5C then
        (case cs of
           [] \<Rightarrow> None
         | d # ds \<Rightarrow>
             if d = CHR 0x22 \<or> d = CHR 0x5C \<or> d = CHR ''/''
             then map_option (apfst ((#) d)) (lex_string ds) else None)
      else map_option (apfst ((#) c)) (lex_string cs))"

fun dict_set :: "string \<Rightarrow> json \<Rightarrow> (string \<times> json) list \<Rightarrow> (string \<times> json) list" where
  "dict_set k v [] = [(k, v)]"
| "dict_set k v (p # d) = (if fst p = k then (k, v) # d else p # dict_set k v d)"

fun parse_value :: "nat \<Rightarrow> string \<Rightarrow> (json \<times> string) option"
  and parse_elements :: "nat \<Rightarrow> json list \<Rightarrow> string \<Rightarrow> (json \<times> string) option"
  and parse_members :: "nat \<Rightarrow> (string \<times> json) list \<Rightarrow> string \<Rightarrow> (json \<times> string) option" where
  "parse_value 0 cs = None"
| "parse_value (Suc n) cs =
     (case skip_ws cs of
        [] \<Rightarrow> None
      | c # r \<Rightarrow>
          if c = CHR ''n'' then (if take 3 r = ''ull'' then Some (JNull, drop 3 r) else None)
          else if c = CHR ''t'' then (if take 3 r = ''rue'' then Some (JBool True, drop 3 r) else None)
          else if c = CHR ''f'' then (if take 4 r = ''alse'' then Some (JBool False, drop 4 r) else None)
          else if c = CHR 0x22 then map_option (apfst JStr) (lex_string r)
          else if c = CHR ''-'' then
            (if r \<noteq> [] \<and> is_digit (hd r)
             then Some (apfst (\<lambda>k. JInt (- int k)) (lex_digits 0 r)) else None)
          else if is_digit c then Some (apfst (\<lambda>k. JInt (int k)) (lex_digits 0 (c # r)))
          else if c = CHR ''['' then
            (if take 1 (skip_ws r) = '']'' then Some (JArr [], drop 1 (skip_ws r))
             else parse_elements n [] r)
          else if c = CHR ''{'' then
            (if take 1 (skip_ws r) = ''}'' then Some (JObj [], drop 1 (skip_ws r))
             else parse_members n [] r)
          else None)"
| "parse_elements 0 acc cs = None"
| "parse_elements (Suc n) acc cs =
     (case parse_value n cs of
        None \<Rightarrow> None
      | Some (v, r) \<Rightarrow>
          if take 1 (skip_ws r) = '']'' then Some (JArr (acc @ [v]), drop 1 (skip_ws r))
          else if take 1 (skip_ws r) = '','' then parse_elements n (acc @ [v]) (drop 1 (skip_ws r))
          else None)"
| "parse_members 0 acc cs = None"
| "parse_members (Suc n) acc cs =
     (if take 1 (skip_ws cs) = [CHR 0x22] then
        (case lex_string (drop 1 (skip_ws cs)) of
           None \<Rightarrow> None
         | Some (k, r) \<Rightarrow>
             if take 1 (skip_ws r) = '':'' then
               (case parse_value n (drop 1 (skip_ws r)) of
                  None \<Rightarrow> None
                | Some (v, r') \<Rightarrow>
                    if take 1 (skip_ws r') = ''}'' then Some (JObj (dict_set k v acc), drop 1 (skip_ws r'))
                    else if take 1 (skip_ws r') = '','' then parse_members n (dict_set k v acc) (drop 1 (skip_ws r'))
                    else None)
             else None)
      else None)"

definition ref_loads :: "string \<Rightarrow> json option" where
  "ref_loads s =
     (case parse_value (Suc (length s)) s of
        None \<Rightarrow> None
      | Some (v, r) \<Rightarrow> if skip_ws r = [] then Some v else None)"

definition ref_json :: json_lib where
  "ref_json = \<lparr>json_loads = ref_loads, json_dumps = ref_dumps\<rparr>"

text \<open>
  A stand-in for the classes of \<^verbatim>\<open>client/definitions.py\<close>: an instance is the JSON
  value it dumps to, and every JSON text validates.
\<close>

definition ref_models :: "json definitions" where
  "ref_models = \<lparr>model_dump_json = ref_dumps, model_validate_json = (\<lambda>cls s. ref_loads s)\<rparr>"

text \<open>A server that gives the same answer to every request, and a client of it
  that has no token.\<close>

definition server :: "http_outcome \<Rightarrow> world" where
  "server out = \<lparr>respond = (\<lambda>_. out), posted = []\<rparr>"

definition anonymous :: HttpClient where
  "anonymous = \<lparr>url = ''http://127.0.0.1:2345/rpc/v1'', token = None\<rparr>"

text \<open>A transport that records what it is given and returns a fixed string.\<close>

definition recorder ::
  "string \<Rightarrow> string \<Rightarrow> string list \<Rightarrow> (string \<times> string list) list
     \<Rightarrow> (error + string) \<times> (string \<times> string list) list" where
  "recorder out method_name params log = (Inr out, log @ [(method_name, params)])"


definition ChainSetHead :: descriptor where
  "ChainSetHead =
     Method ''ChainSetHead'' [(''tsk'', ''ForestFilecoinLotusJsonCidCidLotusJsonGeneric64'')] ''None''
       ''Filecoin.ChainSetHead'' [ModelDumpJson ''tsk''] JsonLoads"

definition ChainHead :: descriptor where
  "ChainHead =
     Method ''ChainHead'' [] ''TipsetLotusJson''
       ''Filecoin.ChainHead'' [] (ModelValidateJson ''TipsetLotusJson'')"

section \<open>Properties\<close>

subsection \<open>Results and application errors\<close>




lemma call_after_response:
  assumes "parse_params lib params = Inr vs"
    and "requests_post (url self) (envelope method_name vs) (bearer self) w = (Inr http_resp, w')"
    and "raise_for_status http_resp = Inr ()"
    and "json_loads lib (content http_resp) = Some v"
  shows "HttpClient_call lib self method_name params w = (unpack lib v, w')"
  using assms by (simp add: HttpClient_call_def response_json_def)

text \<open>
  C1: when the exchange gives a response that \<^verbatim>\<open>raise_for_status\<close> accepts and whose
  body parses to an object, \<^verbatim>\<open>HttpClient.call\<close> raises \<^verbatim>\<open>RuntimeError\<close> with the whole
  object if the key \<^verbatim>\<open>result\<close> is absent or holds \<^verbatim>\<open>null\<close>, and returns
  \<^verbatim>\<open>json.dumps\<close> of the value of \<^verbatim>\<open>result\<close> otherwise, also for \<^verbatim>\<open>false\<close>, \<^verbatim>\<open>0\<close>
  and the empty string.
\<close>

theorem call_result_or_application_error:
  assumes "parse_params lib params = Inr vs"
    and "requests_post (url self) (envelope method_name vs) (bearer self) w = (Inr http_resp, w')"
    and "raise_for_status http_resp = Inr ()"
    and "json_loads lib (content http_resp) = Some (JObj d)"
  shows "fst (HttpClient_call lib self method_name params w) =
     (case map_of d ''result'' of
        None \<Rightarrow> Inl (RuntimeError (JObj d))
      | Some r \<Rightarrow> if r = JNull then Inl (RuntimeError (JObj d)) else Inr (json_dumps lib r))"
proof -
  have "HttpClient_call lib self method_name params w = (unpack lib (JObj d), w')"
    using assms by (rule call_after_response)
  then show ?thesis
    by (simp add: unpack_def split: option.split json.split)
qed

lemmas ref_eval = ref_loads_def is_space_def is_digit_def ref_json_def

lemma loads_false: \<open>ref_loads ''{"result": false}'' = Some (JObj [(''result'', JBool False)])\<close>
  by (simp add: ref_eval)

lemma loads_null: \<open>ref_loads ''{"result": null}'' = Some (JObj [(''result'', JNull)])\<close>
  by (simp add: ref_eval)

lemma loads_true: \<open>ref_loads ''{"result": true}'' = Some (JObj [(''result'', JBool True)])\<close>
  by (simp add: ref_eval)

lemma loads_error: \<open>ref_loads ''{"error": {"code": -32601, "message": "method not found"}}''
  = Some (JObj [(''error'', JObj [(''code'', JInt (-32601)), (''message'', JStr ''method not found'')])])\<close>
  by (simp add: ref_eval)

lemma loads_array: \<open>ref_loads ''[1, 2]'' = Some (JArr [JInt 1, JInt 2])\<close>
  by (simp add: ref_eval)

lemma post_anonymous:
  "requests_post (url anonymous) js (bearer anonymous) (server (HttpResponse st body))
   = (Inr \<lparr>status_code = st, content = body\<rparr>,
      \<lparr>respond = (\<lambda>_. HttpResponse st body),
       posted = [\<lparr>post_url = ''http://127.0.0.1:2345/rpc/v1'', post_json = js, post_auth = None\<rparr>]\<rparr>)"
  by (simp add: requests_post_def anonymous_def bearer_def server_def prepare_auth_def)

theorem call_result_or_application_error_witness:
  \<open>fst (HttpClient_call ref_json anonymous ''Filecoin.NetListening'' []
          (server (HttpResponse 200 ''{"result": false}''))) = Inr ''false''
   \<and> fst (HttpClient_call ref_json anonymous ''Filecoin.Shutdown'' []
          (server (HttpResponse 200 ''{"result": null}'')))
       = Inl (RuntimeError (JObj [(''result'', JNull)]))\<close>
proof -
  have p: "parse_params ref_json [] = Inr []" by simp
  have s: "raise_for_status \<lparr>status_code = 200, content = body\<rparr> = Inr ()" for body
    by (simp add: raise_for_status_def)
  have a: \<open>json_loads ref_json (content \<lparr>status_code = 200, content = ''{"result": false}''\<rparr>)
      = Some (JObj [(''result'', JBool False)])\<close>
    by (simp add: ref_json_def loads_false)
  have b: \<open>json_loads ref_json (content \<lparr>status_code = 200, content = ''{"result": null}''\<rparr>)
      = Some (JObj [(''result'', JNull)])\<close>
    by (simp add: ref_json_def loads_null)
  show ?thesis
    using call_result_or_application_error [OF p post_anonymous s a]
      call_result_or_application_error [OF p post_anonymous s b]
    by (simp add: ref_json_def)
qed


subsection \<open>The printable form of an \<^verbatim>\<open>HttpClient\<close>\<close>

text \<open>
  C10: the output of \<^verbatim>\<open>repr\<close> is the same for any two tokens, and it is determined
  by the url and by whether a token is present.
\<close>

theorem repr_hides_token:
  "HttpClient_repr \<lparr>url = u, token = Some t1\<rparr> = HttpClient_repr \<lparr>url = u, token = Some t2\<rparr>
   \<and> (url c = url c' \<and> (token c = None \<longleftrightarrow> token c' = None)
        \<longrightarrow> HttpClient_repr c = HttpClient_repr c')"
  by (simp add: HttpClient_repr_def)

theorem repr_hides_token_witness:
  "HttpClient_repr \<lparr>url = ''http://127.0.0.1:2345/rpc/v1'', token = Some ''abc''\<rparr>
     = ''HttpClient(url=http://127.0.0.1:2345/rpc/v1, token=...)''
   \<and> HttpClient_repr \<lparr>url = ''http://127.0.0.1:2345/rpc/v1'', token = Some ''abc''\<rparr>
     = HttpClient_repr \<lparr>url = ''http://127.0.0.1:2345/rpc/v1'', token = Some ''xyz''\<rparr>"
  using repr_hides_token [of "''http://127.0.0.1:2345/rpc/v1''" "''abc''" "''xyz''"
      "\<lparr>url = ''u'', token = None\<rparr>" "\<lparr>url = ''u'', token = None\<rparr>"]
  by (simp add: HttpClient_repr_def)

subsection \<open>The request envelope\<close>


lemma call_bad_param:
  "parse_params lib params = Inl e \<Longrightarrow> HttpClient_call lib self method_name params w = (Inl e, w)"
  by (simp add: HttpClient_call_def)



lemma loads_empty_list: \<open>ref_loads ''[]'' = Some (JArr [])\<close>
  by (simp add: ref_eval)


subsection \<open>Transport errors\<close>

lemma post_accepted:
  assumes "prepare_auth auth = Inr ()"
  shows "fst (requests_post u js auth w) =
     (case respond w \<lparr>post_url = u, post_json = js, post_auth = auth\<rparr> of
        ConnectionFailed \<Rightarrow> Inl RequestException
      | HttpResponse st body \<Rightarrow> Inr \<lparr>status_code = st, content = body\<rparr>)"
  using assms by (simp add: requests_post_def Let_def split: http_outcome.split)

lemma call_post_raises:
  assumes "parse_params lib params = Inr vs"
    and "fst (requests_post (url self) (envelope method_name vs) (bearer self) w) = Inl e"
  shows "fst (HttpClient_call lib self method_name params w) = Inl e"
  using assms
  by (cases "requests_post (url self) (envelope method_name vs) (bearer self) w")
    (simp add: HttpClient_call_def)

lemma call_status_raises:
  assumes "parse_params lib params = Inr vs"
    and "fst (requests_post (url self) (envelope method_name vs) (bearer self) w) = Inr r"
    and "400 \<le> status_code r" and "status_code r < 600"
  shows "fst (HttpClient_call lib self method_name params w) = Inl (HTTPError (status_code r))"
  using assms
  by (cases "requests_post (url self) (envelope method_name vs) (bearer self) w")
    (simp add: HttpClient_call_def raise_for_status_def)

text \<open>
  C4, as the code has it: when the connection fails, or the response has a status from
  400 to 599, \<^verbatim>\<open>HttpClient.call\<close> raises the exception of the \<^verbatim>\<open>requests\<close> library
  (\<^verbatim>\<open>RequestException\<close>, or \<^verbatim>\<open>HTTPError\<close> from \<^verbatim>\<open>raise_for_status\<close>), whatever the body
  is: the body is not parsed.
\<close>

theorem transport_error_before_decoding:
  assumes "parse_params lib params = Inr vs"
    and "prepare_auth (bearer self) = Inr ()"
    and "respond w \<lparr>post_url = url self, post_json = envelope method_name vs,
           post_auth = bearer self\<rparr> = out"
  shows "(out = ConnectionFailed \<longrightarrow>
            fst (HttpClient_call lib self method_name params w) = Inl RequestException)
       \<and> (\<forall>st body. out = HttpResponse st body \<and> 400 \<le> st \<and> st < 600 \<longrightarrow>
            fst (HttpClient_call lib self method_name params w) = Inl (HTTPError st))"
proof (intro conjI allI impI)
  assume "out = ConnectionFailed"
  then have "fst (requests_post (url self) (envelope method_name vs) (bearer self) w)
      = Inl RequestException"
    using assms(2,3) by (simp add: post_accepted)
  then show "fst (HttpClient_call lib self method_name params w) = Inl RequestException"
    by (rule call_post_raises [OF assms(1)])
next
  fix st body
  assume h: "out = HttpResponse st body \<and> 400 \<le> st \<and> st < 600"
  then have "fst (requests_post (url self) (envelope method_name vs) (bearer self) w)
      = Inr \<lparr>status_code = st, content = body\<rparr>"
    using assms(2,3) by (simp add: post_accepted)
  from call_status_raises [OF assms(1) this] h
  show "fst (HttpClient_call lib self method_name params w) = Inl (HTTPError st)"
    by simp
qed

theorem transport_error_before_decoding_witness:
  \<open>fst (HttpClient_call ref_json anonymous ''Filecoin.ChainHead'' []
          (server (HttpResponse 500 ''{"result": true}''))) = Inl (HTTPError 500)
   \<and> fst (HttpClient_call ref_json anonymous ''Filecoin.ChainHead'' []
          (server ConnectionFailed)) = Inl RequestException\<close>
proof -
  have p: "parse_params ref_json [] = Inr []" by simp
  have a: "prepare_auth (bearer anonymous) = Inr ()"
    by (simp add: prepare_auth_def bearer_def anonymous_def)
  have r: "respond (server out) \<lparr>post_url = url anonymous,
      post_json = envelope ''Filecoin.ChainHead'' [], post_auth = bearer anonymous\<rparr> = out" for out
    by (simp add: server_def)
  show ?thesis
    using transport_error_before_decoding [OF p a r, of \<open>HttpResponse 500 ''{"result": true}''\<close>]
      transport_error_before_decoding [OF p a r, of ConnectionFailed]
    by simp
qed

text \<open>
  C4 as stated fails for a status that is neither 2xx nor 4xx nor 5xx:
  \<^verbatim>\<open>raise_for_status\<close> accepts a response with status 300, and its body is parsed and
  its result returned.
\<close>

theorem status_300_is_decoded:
  \<open>fst (HttpClient_call ref_json anonymous ''Filecoin.NetListening'' []
          (server (HttpResponse 300 ''{"result": true}''))) = Inr ''true''\<close>
proof -
  have p: "parse_params ref_json [] = Inr []" by simp
  have s: "raise_for_status \<lparr>status_code = 300, content = body\<rparr> = Inr ()" for body
    by (simp add: raise_for_status_def)
  have a: \<open>json_loads ref_json (content \<lparr>status_code = 300, content = ''{"result": true}''\<rparr>)
      = Some (JObj [(''result'', JBool True)])\<close>
    by (simp add: ref_json_def loads_true)
  show ?thesis
    using call_after_response [OF p post_anonymous s a]
    by (simp add: unpack_def ref_json_def)
qed

subsection \<open>The payload of an application error\<close>

text \<open>
  C6, as the code has it: when the body is the object with the single key
  \<^verbatim>\<open>error\<close>, \<^verbatim>\<open>HttpClient.call\<close> raises \<^verbatim>\<open>RuntimeError\<close> with the whole decoded object,
  in which the value of \<^verbatim>\<open>error\<close> is unchanged.
\<close>

theorem error_payload_is_whole_response:
  assumes "parse_params lib params = Inr vs"
    and "requests_post (url self) (envelope method_name vs) (bearer self) w = (Inr http_resp, w')"
    and "raise_for_status http_resp = Inr ()"
    and "json_loads lib (content http_resp) = Some (JObj [(''error'', E)])"
  shows "fst (HttpClient_call lib self method_name params w)
       = Inl (RuntimeError (JObj [(''error'', E)]))"
  using call_after_response [OF assms] by (simp add: unpack_def)

theorem error_payload_is_whole_response_witness:
  \<open>fst (HttpClient_call ref_json anonymous ''Filecoin.ChainHead'' []
          (server (HttpResponse 200 ''{"error": {"code": -32601, "message": "method not found"}}'')))
   = Inl (RuntimeError (JObj [(''error'',
       JObj [(''code'', JInt (- 32601)), (''message'', JStr ''method not found'')])]))\<close>
proof -
  have p: "parse_params ref_json [] = Inr []" by simp
  have s: "raise_for_status \<lparr>status_code = 200, content = body\<rparr> = Inr ()" for body
    by (simp add: raise_for_status_def)
  have a: \<open>json_loads ref_json (content \<lparr>status_code = 200,
        content = ''{"error": {"code": -32601, "message": "method not found"}}''\<rparr>)
      = Some (JObj [(''error'',
          JObj [(''code'', JInt (- 32601)), (''message'', JStr ''method not found'')])])\<close>
    by (simp add: ref_json_def loads_error)
  show ?thesis
    using error_payload_is_whole_response [OF p post_anonymous s a] .
qed

text \<open>
  C6 as stated fails on its own example: the payload of the exception is the whole
  response object, not the value of its \<^verbatim>\<open>error\<close> field.
\<close>

theorem error_payload_is_not_the_error_field:
  \<open>fst (HttpClient_call ref_json anonymous ''Filecoin.ChainHead'' []
          (server (HttpResponse 200 ''{"error": {"code": -32601, "message": "method not found"}}'')))
   \<noteq> Inl (RuntimeError
         (JObj [(''code'', JInt (- 32601)), (''message'', JStr ''method not found'')]))\<close>
proof -
  have p: "parse_params ref_json [] = Inr []" by simp
  have s: "raise_for_status \<lparr>status_code = 200, content = body\<rparr> = Inr ()" for body
    by (simp add: raise_for_status_def)
  have a: \<open>json_loads ref_json (content \<lparr>status_code = 200,
        content = ''{"error": {"code": -32601, "message": "method not found"}}''\<rparr>)
      = Some (JObj [(''error'',
          JObj [(''code'', JInt (- 32601)), (''message'', JStr ''method not found'')])])\<close>
    by (simp add: ref_json_def loads_error)
  show ?thesis
    using call_after_response [OF p post_anonymous s a] by (simp add: unpack_def)
qed

subsection \<open>A body that is not an object\<close>

text \<open>
  C9: when the body parses to a value that is not a dict, the assertion of
  \<^verbatim>\<open>HttpClient.call\<close> fails, so no result string is returned.
\<close>

theorem non_object_body_fails:
  assumes "parse_params lib params = Inr vs"
    and "requests_post (url self) (envelope method_name vs) (bearer self) w = (Inr http_resp, w')"
    and "raise_for_status http_resp = Inr ()"
    and "json_loads lib (content http_resp) = Some v"
    and "\<not> is_dict v"
  shows "fst (HttpClient_call lib self method_name params w) = Inl AssertionError"
  using call_after_response [OF assms(1-4)] assms(5)
  by (cases v) (simp_all add: unpack_def)

theorem non_object_body_fails_witness:
  \<open>fst (HttpClient_call ref_json anonymous ''Filecoin.ChainHead'' []
          (server (HttpResponse 200 ''[1, 2]''))) = Inl AssertionError\<close>
proof -
  have p: "parse_params ref_json [] = Inr []" by simp
  have s: "raise_for_status \<lparr>status_code = 200, content = body\<rparr> = Inr ()" for body
    by (simp add: raise_for_status_def)
  have a: \<open>json_loads ref_json (content \<lparr>status_code = 200, content = ''[1, 2]''\<rparr>)
      = Some (JArr [JInt 1, JInt 2])\<close>
    by (simp add: ref_json_def loads_array)
  have d: "\<not> is_dict (JArr [JInt 1, JInt 2])" by simp
  show ?thesis
    using non_object_body_fails [OF p post_anonymous s a d] .
qed

lemma call_unparsable_body:
  assumes "parse_params lib params = Inr vs"
    and "requests_post (url self) (envelope method_name vs) (bearer self) w = (Inr http_resp, w')"
    and "raise_for_status http_resp = Inr ()"
    and "json_loads lib (content http_resp) = None"
  shows "fst (HttpClient_call lib self method_name params w) = Inl RequestsJSONDecodeError"
  using assms by (simp add: HttpClient_call_def response_json_def)

subsection \<open>The credential\<close>

text \<open>
  C7: a client that was built with a token passes the string \<^verbatim>\<open>Bearer\<close> followed by
  the token as the \<^verbatim>\<open>auth\<close> argument of \<^verbatim>\<open>requests.post\<close>. The library calls a
  non-empty \<^verbatim>\<open>auth\<close> that is no pair, so the call raises \<^verbatim>\<open>TypeError\<close> and no
  request carries the credential, whatever the server would answer.
\<close>

theorem call_with_token_raises:
  "fst (HttpClient_call lib \<lparr>url = u, token = Some t\<rparr> method_name [] w) = Inl TypeError"
  by (simp add: HttpClient_call_def requests_post_def bearer_def prepare_auth_def)

lemma call_with_token_ignores_server:
  assumes "parse_params lib params = Inr vs" and "token self = Some t"
  shows "fst (HttpClient_call lib self method_name params w) = Inl TypeError"
  using assms
  by (simp add: HttpClient_call_def requests_post_def bearer_def prepare_auth_def)

subsection \<open>The parameters a method passes to its transport\<close>

lemma eval_params_env:
  assumes "list_all2 (\<lambda>p a. map_of env (fst p) = Some a \<and> is_plain a = plain_annotation (snd p)) sg args"
  shows "eval_params lib defs env (map encoder_for sg) = Inr (map (serialize lib defs) args)"
  using assms
proof (induction sg args rule: list_all2_induct)
  case Nil
  then show ?case by simp
next
  case (Cons p sg a args)
  then show ?case
    by (cases a) (auto simp: eval_encoder_def encoder_for_def)
qed

lemma bound_arguments:
  assumes "distinct (map fst sg)" and "length args = length sg"
  shows "list_all2 (\<lambda>p a. map_of (zip (map fst sg) args) (fst p) = Some a) sg args"
  unfolding list_all2_conv_all_nth
proof (intro conjI allI impI)
  show "length sg = length args" using assms by simp
next
  fix i assume "i < length sg"
  then show "map_of (zip (map fst sg) args) (fst (sg ! i)) = Some (args ! i)"
    using map_of_zip_nth [of "map fst sg" args i] assms by simp
qed

lemma method_call:
  assumes "follows_signature m" and "well_typed m args"
  shows "Client_method lib defs call m args w
       = finish lib defs m (call (rpc_name m) (map (serialize lib defs) args) w)"
proof -
  have len: "length args = length (signature m)"
    using assms(2) by (simp add: well_typed_def list_all2_lengthD)
  have "list_all2 (\<lambda>p a. map_of (zip (map fst (signature m)) args) (fst p) = Some a
          \<and> is_plain a = plain_annotation (snd p)) (signature m) args"
    using bound_arguments [of "signature m" args] assms len
    by (simp add: follows_signature_def well_typed_def list_all2_conv_all_nth)
  then have "eval_params lib defs (zip (map fst (signature m)) args) (call_params m)
      = Inr (map (serialize lib defs) args)"
    using eval_params_env [of "zip (map fst (signature m)) args" "signature m" args lib defs] assms(1)
    by (simp add: follows_signature_def)
  then show ?thesis
    using len by (simp add: Client_method_def bind_args_def)
qed


lemma methods_follow_signature: "list_all follows_signature Client_methods"
  by code_simp

lemma method_follows_signature: "m \<in> set Client_methods \<Longrightarrow> follows_signature m"
  using methods_follow_signature by (simp add: list_all_iff)



lemma ChainSetHead_method: "ChainSetHead \<in> set Client_methods"
  by (simp add: ChainSetHead_def Client_methods_def)


subsection \<open>Methods declared to return nothing, and decoded results\<close>

lemma void_methods_use_json_loads:
  "list_all (\<lambda>m. returns m \<noteq> ''None'' \<or> result_decoder m = JsonLoads) Client_methods"
  by code_simp

lemma void_method_decoder:
  "m \<in> set Client_methods \<Longrightarrow> returns m = ''None'' \<Longrightarrow> result_decoder m = JsonLoads"
  using void_methods_use_json_loads by (auto simp: list_all_iff)

text \<open>
  C8, as the code has it: a method of the table that is annotated \<^verbatim>\<open>-> None\<close> returns
  \<^verbatim>\<open>json.loads\<close> of the string its transport returned. The caller receives \<^verbatim>\<open>None\<close> when
  that string is the text \<^verbatim>\<open>null\<close>, the decoded value when it is another JSON text,
  and \<^verbatim>\<open>JSONDecodeError\<close> when it is not JSON.
\<close>

theorem void_method_returns_decoded_output:
  assumes "m \<in> set Client_methods" and "returns m = ''None''" and "well_typed m args"
    and "call (rpc_name m) (map (serialize lib defs) args) w = (Inr s, w')"
  shows "fst (Client_method lib defs call m args w) =
     (case json_loads lib s of
        None \<Rightarrow> Inl JSONDecodeError
      | Some v \<Rightarrow> Inr (Plain v))"
proof -
  have "Client_method lib defs call m args w = finish lib defs m (Inr s, w')"
    using method_call [OF method_follows_signature [OF assms(1)] assms(3), of lib defs call w]
      assms(4) by simp
  then show ?thesis
    using void_method_decoder [OF assms(1,2)]
    by (simp add: finish_def decode_def split: option.split)
qed

lemma loads_null_text: "ref_loads ''null'' = Some JNull"
  by (simp add: ref_eval)

lemma loads_true_text: "ref_loads ''true'' = Some (JBool True)"
  by (simp add: ref_eval)

theorem void_method_returns_decoded_output_witness:
  "fst (Client_method ref_json ref_models (recorder ''null'') ChainSetHead [Model (JArr [])] [])
     = Inr (Plain JNull)"
proof -
  have v: "returns ChainSetHead = ''None''" by (simp add: ChainSetHead_def)
  have t: "well_typed ChainSetHead [Model (JArr [])]"
    by (simp add: well_typed_def ChainSetHead_def plain_annotation_def)
  have c: "recorder ''null'' (rpc_name ChainSetHead)
      (map (serialize ref_json ref_models) [Model (JArr [])]) []
      = (Inr ''null'', [(rpc_name ChainSetHead, map (serialize ref_json ref_models) [Model (JArr [])])])"
    by (simp add: recorder_def)
  have l: "json_loads ref_json ''null'' = Some JNull"
    by (simp add: ref_json_def loads_null_text)
  from void_method_returns_decoded_output [of ChainSetHead "[Model (JArr [])]" "recorder ''null''"
      ref_json ref_models "[]" "''null''", OF ChainSetHead_method v t c]
  show ?thesis by (simp add: l)
qed

text \<open>
  C8 as stated fails: \<^verbatim>\<open>ChainSetHead\<close> over \<^verbatim>\<open>HttpClient\<close>, with a server that answers
  with the result \<^verbatim>\<open>true\<close>, completes without error and returns \<^verbatim>\<open>True\<close>.
\<close>

theorem void_method_returns_a_value:
  \<open>fst (Client_method ref_json ref_models (HttpClient_call ref_json anonymous) ChainSetHead
          [Model (JArr [])] (server (HttpResponse 200 ''{"result": true}'')))
     = Inr (Plain (JBool True))\<close>
proof -
  have f: "follows_signature ChainSetHead"
    by (simp add: follows_signature_def ChainSetHead_def encoder_for_def plain_annotation_def)
  have t: "well_typed ChainSetHead [Model (JArr [])]"
    by (simp add: well_typed_def ChainSetHead_def plain_annotation_def)
  have d: "map (serialize ref_json ref_models) [Model (JArr [])] = [''[]'']"
    by (simp add: ref_models_def)
  have p: "parse_params ref_json [''[]''] = Inr [JArr []]"
    by (simp add: ref_json_def loads_empty_list)
  have s: "raise_for_status \<lparr>status_code = 200, content = body\<rparr> = Inr ()" for body
    by (simp add: raise_for_status_def)
  have a: \<open>json_loads ref_json (content \<lparr>status_code = 200, content = ''{"result": true}''\<rparr>)
      = Some (JObj [(''result'', JBool True)])\<close>
    by (simp add: ref_json_def loads_true)
  have u: "unpack ref_json (JObj [(''result'', JBool True)]) = Inr ''true''"
    by (simp add: unpack_def ref_json_def)
  have r: "decode ref_json ref_models (result_decoder ChainSetHead) ''true'' = Inr (Plain (JBool True))"
    by (simp add: ChainSetHead_def decode_def ref_json_def loads_true_text)
  have c: \<open>HttpClient_call ref_json anonymous (rpc_name ChainSetHead) [''[]'']
      (server (HttpResponse 200 ''{"result": true}''))
      = (Inr ''true'', \<lparr>respond = (\<lambda>_. HttpResponse 200 ''{"result": true}''),
          posted = [\<lparr>post_url = ''http://127.0.0.1:2345/rpc/v1'',
            post_json = envelope (rpc_name ChainSetHead) [JArr []], post_auth = None\<rparr>]\<rparr>)\<close>
    unfolding call_after_response [OF p post_anonymous s a] u ..
  have \<open>Client_method ref_json ref_models (HttpClient_call ref_json anonymous) ChainSetHead
      [Model (JArr [])] (server (HttpResponse 200 ''{"result": true}''))
    = finish ref_json ref_models ChainSetHead
        (HttpClient_call ref_json anonymous (rpc_name ChainSetHead) [''[]'']
          (server (HttpResponse 200 ''{"result": true}'')))\<close>
    unfolding method_call [OF f t] d ..
  then show ?thesis
    unfolding c by (simp add: finish_def r)
qed

lemma call_returns_result_text:
  assumes "parse_params lib params = Inr vs"
    and "requests_post (url self) (envelope method_name vs) (bearer self) w = (Inr http_resp, w')"
    and "raise_for_status http_resp = Inr ()"
    and "json_loads lib (content http_resp) = Some (JObj d)"
    and "map_of d ''result'' = Some R" and "R \<noteq> JNull"
  shows "HttpClient_call lib self method_name params w = (Inr (json_dumps lib R), w')"
  using call_after_response [OF assms(1-4)] assms(5,6)
  by (cases R) (simp_all add: unpack_def)

lemma method_decodes_result_text:
  assumes "m \<in> set Client_methods" and "well_typed m args"
    and "call (rpc_name m) (map (serialize lib defs) args) w = (Inr s, w')"
  shows "fst (Client_method lib defs call m args w) = decode lib defs (result_decoder m) s"
  using method_call [OF method_follows_signature [OF assms(1)] assms(2), of lib defs call w] assms(3)
  by (simp add: finish_def)

end
